theory Spec2Isabelle
  imports Main
begin

section \<open>Python string primitives used by the generator\<close>

text \<open>
  A Python \<open>str\<close> is modelled as a HOL \<open>string\<close>, each \<open>char\<close> standing for one code
  point below 256 (the Latin-1 range). The methods below are the ones
  \<open>src/python.py\<close> calls, restricted to that range.
\<close>

text \<open>\<open>s.startswith(p)\<close>; used to spell out substring search.\<close>

fun starts_with :: "string \<Rightarrow> string \<Rightarrow> bool" where
  "starts_with [] s = True"
| "starts_with (p # ps) [] = False"
| "starts_with (p # ps) (c # cs) = (p = c \<and> starts_with ps cs)"

text \<open>\<open>sub in s\<close>: some suffix of \<open>s\<close> starts with \<open>sub\<close>.\<close>

fun contains :: "string \<Rightarrow> string \<Rightarrow> bool" where
  "contains sub [] = starts_with sub []"
| "contains sub (c # cs) = (starts_with sub (c # cs) \<or> contains sub cs)"

text \<open>
  \<open>s.replace(old, new)\<close>: the occurrences of \<open>old\<close> are found scanning from the left,
  without overlap, and each is replaced. Every call in the source has a non-empty
  \<open>old\<close>; for the empty pattern Python interleaves \<open>new\<close>, which is not modelled
  (the string is returned unchanged).
\<close>

function replace :: "string \<Rightarrow> string \<Rightarrow> string \<Rightarrow> string" where
  "replace old new [] = []"
| "replace old new (c # cs) =
     (if old \<noteq> [] \<and> starts_with old (c # cs)
      then new @ replace old new (drop (length old) (c # cs))
      else c # replace old new cs)"
  by pat_completeness auto
termination
  by (relation "measure (\<lambda>(old, new, s). length s)") auto

text \<open>
  \<open>str.lower()\<close> on code points below 256: \<open>A\<close>..\<open>Z\<close> and the Latin-1 capitals
  \<open>0xC0\<close>..\<open>0xDE\<close> (without the multiplication sign \<open>0xD7\<close>) move up by 32, every other
  code point is unchanged.
\<close>

definition lower_char :: "char \<Rightarrow> char" where
  "lower_char c =
     (let n = (of_char c :: nat)
      in if (65 \<le> n \<and> n \<le> 90) \<or> (192 \<le> n \<and> n \<le> 222 \<and> n \<noteq> 215)
         then char_of (n + 32) else c)"

definition lower :: "string \<Rightarrow> string" where
  "lower s = map lower_char s"

text \<open>
  \<open>str.isspace()\<close> on code points below 256: tab, line feed, vertical tab, form feed,
  carriage return, the four separators \<open>0x1C\<close>..\<open>0x1F\<close>, space, \<open>0x85\<close> and \<open>0xA0\<close>.
\<close>

definition is_space :: "char \<Rightarrow> bool" where
  "is_space c =
     (let n = (of_char c :: nat)
      in (9 \<le> n \<and> n \<le> 13) \<or> (28 \<le> n \<and> n \<le> 32) \<or> n = 133 \<or> n = 160)"

text \<open>
  \<open>s.strip()\<close> and \<open>s.strip(chars)\<close>: the characters satisfying \<open>p\<close> are dropped from
  the left end, then from the right end.
\<close>

definition strip_where :: "(char \<Rightarrow> bool) \<Rightarrow> string \<Rightarrow> string" where
  "strip_where p s = rev (dropWhile p (rev (dropWhile p s)))"

definition strip :: "string \<Rightarrow> string" where
  "strip s = strip_where is_space s"

definition strip_chars :: "string \<Rightarrow> string \<Rightarrow> string" where
  "strip_chars chars s = strip_where (\<lambda>c. c \<in> set chars) s"

text \<open>
  \<open>s.split(sep, 1)\<close> for a non-empty \<open>sep\<close>: the text before and after the first
  occurrence of \<open>sep\<close>, or the whole string alone when there is none.
\<close>

fun split_once :: "string \<Rightarrow> string \<Rightarrow> (string \<times> string) option" where
  "split_once sep [] = (if sep = [] then Some ([], []) else None)"
| "split_once sep (c # cs) =
     (if starts_with sep (c # cs) then Some ([], drop (length sep) (c # cs))
      else (case split_once sep cs of
              None \<Rightarrow> None
            | Some (a, b) \<Rightarrow> Some (c # a, b)))"

definition split1 :: "string \<Rightarrow> string \<Rightarrow> string list" where
  "split1 sep s = (case split_once sep s of None \<Rightarrow> [s] | Some (a, b) \<Rightarrow> [a, b])"

text \<open>Errors a run can raise, and list indexing, which raises out of range.\<close>

datatype error = IndexError | OSError

definition index :: "'a list \<Rightarrow> nat \<Rightarrow> error + 'a" where
  "index xs i = (if i < length xs then Inr (xs ! i) else Inl IndexError)"

section \<open>The filename classifier\<close>

record song_info =
  title :: string
  artist :: string
  difficulties :: "string list"
  overall_difficulty :: int

text \<open>Line 16: \<open>filename.replace('.mid', '').replace('.midi', '')\<close>.\<close>

definition strip_extension :: "string \<Rightarrow> string" where
  "strip_extension filename = replace ''.midi'' '''' (replace ''.mid'' '''' filename)"

text \<open>
  Lines 19-32: the default title and artist, and the split on \<open>' - '\<close> or \<open>' -'\<close>.
  The result is the pair \<open>(title, artist)\<close>.
\<close>

definition split_artist_title :: "string \<Rightarrow> error + (string \<times> string)" where
  "split_artist_title name =
     (if contains '' - '' name then
        (let parts = split1 '' - '' name in
         case index parts 0 of Inl e \<Rightarrow> Inl e | Inr p0 \<Rightarrow>
         (case index parts 1 of Inl e \<Rightarrow> Inl e | Inr p1 \<Rightarrow>
            Inr (strip p1, strip p0)))
      else if contains '' -'' name then
        (let parts = split1 '' -'' name in
         case index parts 0 of Inl e \<Rightarrow> Inl e | Inr p0 \<Rightarrow>
         (case index parts 1 of Inl e \<Rightarrow> Inl e | Inr p1 \<Rightarrow>
            Inr (strip p1, strip p0)))
      else Inr (name, ''Unknown''))"

text \<open>
  Lines 35-106: the chain of keyword rules over \<open>name.lower()\<close>. The argument \<open>low\<close>
  is the lowercased name, \<open>t\<close> and \<open>a\<close> the title and artist so far; the result is
  the pair \<open>(title, artist)\<close>.
\<close>

definition special_cases :: "string \<Rightarrow> string \<Rightarrow> string \<Rightarrow> string \<times> string" where
  "special_cases low t a =
     (if contains ''twinkle'' low then (''Twinkle Twinkle Little Star'', ''Traditional'')
      else if contains ''beethoven'' low \<or> contains ''moonlight'' low
        then (''Moonlight Sonata'', ''Beethoven'')
      else if contains ''debussy'' low \<or> contains ''clair'' low
        then (''Clair de Lune'', ''Debussy'')
      else if contains ''metallica'' low
        then (if contains ''master'' low then (''Master of Puppets'', ''Metallica'')
              else if contains ''nothing'' low then (''Nothing Else Matters'', ''Metallica'')
              else (t, ''Metallica''))
      else if contains ''michael jackson'' low \<or> contains ''billie jean'' low
        then (''Billie Jean'', ''Michael Jackson'')
      else if contains ''nirvana'' low \<or> contains ''smells'' low
        then (''Smells Like Teen Spirit'', ''Nirvana'')
      else if contains ''owl city'' low \<or> contains ''fireflies'' low
        then (''Fireflies'', ''Owl City'')
      else if contains ''pokemon'' low then (''Wild Pokemon Battle'', ''Pokemon'')
      else if contains ''smash'' low \<and> contains ''mouth'' low
        then (''All Star'', ''Smash Mouth'')
      else if contains ''final countdown'' low then (''The Final Countdown'', ''Europe'')
      else if contains ''toto'' low \<or> contains ''africa'' low then (''Africa'', ''Toto'')
      else if contains ''wii'' low \<and> contains ''theme'' low then (''Wii Theme'', ''Nintendo'')
      else if contains ''mii channel'' low then (''Mii Channel'', ''Nintendo'')
      else if contains ''super smash'' low
        then (''Super Smash Bros Brawl - Main Theme'', ''Nintendo'')
      else if contains ''mountain king'' low
        then (''In the Hall of the Mountain King'', ''Grieg'')
      else if contains ''titanic'' low \<or> contains ''heart'' low
        then (''My Heart Will Go On'', ''Celine Dion'')
      else if contains ''backstreet'' low then (''I Want It That Way'', ''Backstreet Boys'')
      else if contains ''dooms-gate'' low then (''Doom's Gate'', ''Doom'')
      else if contains ''spearsofjustice'' low then (''Spear of Justice'', ''Undertale'')
      else if contains ''test-drive'' low then (''Test Drive'', ''Test'')
      else if contains ''desert'' low \<or> contains ''canyon'' low
        then (''Desert Canyon'', ''Traditional'')
      else if contains ''beach'' low \<and> contains ''town'' low
        then (if contains ''violin'' low then (''Beach Town Violin'', ''Traditional'')
              else if contains ''flute'' low then (''Beach Town Flute'', ''Traditional'')
              else (t, ''Traditional''))
      else (t, a))"

definition extract_song_info_from_filename :: "string \<Rightarrow> error + song_info" where
  "extract_song_info_from_filename filename =
     (let name = strip_extension filename in
      case split_artist_title name of
        Inl e \<Rightarrow> Inl e
      | Inr (t, a) \<Rightarrow>
          (let (t', a') = special_cases (lower name) t a
           in Inr \<lparr>title = t', artist = a', difficulties = [''easy''],
                   overall_difficulty = 5\<rparr>))"

section \<open>The catalog builder\<close>

text \<open>
  One entry of the catalog, with the keys of the dictionary built at lines 139-158 in
  their order. The keys \<open>id\<close>, \<open>title\<close>, \<open>artist\<close>, \<open>difficulties\<close> and \<open>notes\<close> carry the prefix
  \<open>s_\<close> here. A dictionary with the single key \<open>easy\<close> is an association list; the
  note lists are always empty, strings stand in for their elements.
\<close>

record song =
  s_id :: string
  s_title :: string
  s_artist :: string
  duration :: string
  s_difficulties :: "string list"
  bpm :: int
  format :: string
  overallDifficulty :: int
  soundFont :: string
  midiFiles :: "(string \<times> string) list"
  audioFiles :: "(string \<times> string) list"
  s_notes :: "(string \<times> string list) list"

text \<open>The character class \<open>[a-z0-9]\<close>.\<close>

definition is_slug_char :: "char \<Rightarrow> bool" where
  "is_slug_char c =
     (let n = (of_char c :: nat) in (97 \<le> n \<and> n \<le> 122) \<or> (48 \<le> n \<and> n \<le> 57))"

text \<open>\<open>re.sub(r'[^a-z0-9]', '-', s)\<close>: each character outside the class becomes a hyphen.\<close>

definition sub_non_alnum :: "string \<Rightarrow> string" where
  "sub_non_alnum s = map (\<lambda>c. if is_slug_char c then c else CHR ''-'') s"

text \<open>\<open>re.sub(r'-+', '-', s)\<close>: each maximal run of hyphens becomes one hyphen.\<close>

function sub_hyphen_runs :: "string \<Rightarrow> string" where
  "sub_hyphen_runs [] = []"
| "sub_hyphen_runs (c # cs) =
     (if c = CHR ''-''
      then CHR ''-'' # sub_hyphen_runs (dropWhile (\<lambda>x. x = CHR ''-'') cs)
      else c # sub_hyphen_runs cs)"
  by pat_completeness auto
termination
  by (relation "measure length") (auto simp: length_dropWhile_le less_Suc_eq_le)

text \<open>Lines 134-136: the slug \<open>song_id\<close>, before the suffix \<open>-midi\<close> is appended.\<close>

definition song_id :: "string \<Rightarrow> string" where
  "song_id filename =
     (let s = lower (strip_extension filename);
          s = sub_non_alnum s
      in strip_chars ''-'' (sub_hyphen_runs s))"

text \<open>Lines 128-164: the body of the loop, for one file name.\<close>

definition make_song :: "string \<Rightarrow> error + song" where
  "make_song filename =
     (case extract_song_info_from_filename filename of
        Inl e \<Rightarrow> Inl e
      | Inr info \<Rightarrow>
          (let sid = song_id filename;
               s = \<lparr>s_id = sid @ ''-midi'',
                    s_title = title info,
                    s_artist = artist info,
                    duration = ''0:30'',
                    s_difficulties = difficulties info,
                    bpm = 120,
                    format = ''midi'',
                    overallDifficulty = overall_difficulty info,
                    soundFont = ''https://porter-smith.github.io/rhythm-master-files/soundfonts/gzdoom.sf2'',
                    midiFiles = [(''easy'',
                      ''https://porter-smith.github.io/rhythm-master-files/midi/'' @ filename)],
                    audioFiles = [(''easy'', ''/audio/'' @ sid @ ''-easy.mp3'')],
                    s_notes = [(''easy'', [])]\<rparr>
           in Inr (if list_ex (\<lambda>keyword. contains keyword (lower filename))
                        [''doom'', ''spearsofjustice'', ''beach'', ''desert'']
                   then s\<lparr>soundFont := ''https://porter-smith.github.io/rhythm-master-files/soundfonts/gzdoom.sf2''\<rparr>
                   else s)))"

text \<open>The loop of lines 127-164 over the files found, appending to \<open>songs\<close>.\<close>

fun build_songs :: "string list \<Rightarrow> song list \<Rightarrow> error + song list" where
  "build_songs [] songs = Inr songs"
| "build_songs (filename # rest) songs =
     (case make_song filename of
        Inl e \<Rightarrow> Inl e
      | Inr s \<Rightarrow> build_songs rest (songs @ [s]))"

text \<open>
  The file system as the program sees it: the entry names of the directory \<open>midi\<close> in
  the order the system enumerates them (\<open>None\<close> when the directory does not exist), and
  whether \<open>midi_songs_database.json\<close> can be opened for writing.
\<close>

record env =
  midi_dir :: "string list option"
  output_writable :: bool

text \<open>\<open>midi_dir.glob("*" + ext)\<close>: the entries whose name ends with \<open>ext\<close>.\<close>

definition ends_with :: "string \<Rightarrow> string \<Rightarrow> bool" where
  "ends_with ext s = starts_with (rev ext) (rev s)"

definition glob :: "string \<Rightarrow> string list \<Rightarrow> string list" where
  "glob ext names = filter (ends_with ext) names"

text \<open>
  What a run prints, line by line. The formatted lines that depend on the songs are
  kept as their arguments: the count of the \<open>Generated database\<close> line, the exception of
  the \<open>Error\<close> line, and the songs of the TypeScript-like listing of lines 193-220.
\<close>

datatype out_line =
    Line string
  | Generated nat
  | Listing "song list"
  | ErrorLine error

text \<open>
  Lines 115-166. The result is what was printed and the returned value: \<open>None\<close> for
  the bare \<open>return\<close> of line 122, the list of songs otherwise.
\<close>

definition generate_midi_songs_json ::
    "string list option \<Rightarrow> out_line list \<times> (error + song list option)" where
  "generate_midi_songs_json dir =
     (case dir of
        None \<Rightarrow> ([Line ''MIDI directory midi not found!''], Inr None)
      | Some names \<Rightarrow>
          (let midi_files = glob ''.mid'' names @ glob ''.midi'' names
           in case build_songs midi_files [] of
                Inl e \<Rightarrow> ([], Inl e)
              | Inr songs \<Rightarrow> ([], Inr (Some songs))))"

record catalog =
  midiSongs :: "song list"
  allSongs :: "song list"

text \<open>
  The outcome of a run of \<open>main\<close>: the lines printed and the catalog written to
  \<open>midi_songs_database.json\<close>, if the file was written. The handler of line 222
  catches every exception of the block, so no run of \<open>main\<close> ends in an error.
\<close>

record outcome =
  stdout :: "out_line list"
  written :: "catalog option"

text \<open>
  Lines 168-223. The test \<open>not midi_songs\<close> of line 175 holds for \<open>None\<close> and for the
  empty list.
\<close>

definition main :: "env \<Rightarrow> outcome" where
  "main e =
     (let (printed, r) = generate_midi_songs_json (midi_dir e);
          out = Line ''Analyzing MIDI files...'' # printed;
          no_songs = \<lparr>stdout = out @ [Line ''No MIDI songs found!''], written = None\<rparr>
      in case r of
           Inl err \<Rightarrow> \<lparr>stdout = out @ [ErrorLine err], written = None\<rparr>
         | Inr None \<Rightarrow> no_songs
         | Inr (Some midi_songs) \<Rightarrow>
             if midi_songs = [] then no_songs
             else
               (let output = \<lparr>midiSongs = midi_songs, allSongs = midi_songs\<rparr>
                in if output_writable e
                   then \<lparr>stdout = out @ [Generated (length midi_songs),
                                          Line ''Saved to: midi_songs_database.json'',
                                          Listing midi_songs],
                         written = Some output\<rparr>
                   else \<lparr>stdout = out @ [ErrorLine OSError], written = None\<rparr>))"

section \<open>The pattern of an identifier\<close>

text \<open>
  The regular expression \<open>^[a-z0-9]+(-[a-z0-9]+)*-midi$\<close> of the specification.
  \<open>match_slug b s\<close> runs the automaton of \<open>[a-z0-9]+(-[a-z0-9]+)*\<close> over \<open>s\<close>, where \<open>b\<close>
  tells whether the character before \<open>s\<close> was of the class \<open>[a-z0-9]\<close>: a hyphen is
  accepted only after such a character, and the end only there.
\<close>

fun match_slug :: "bool \<Rightarrow> string \<Rightarrow> bool" where
  "match_slug b [] = b"
| "match_slug b (c # cs) =
     (if is_slug_char c then match_slug True cs
      else if c = CHR ''-'' \<and> b then match_slug False cs
      else False)"

definition id_pattern :: "string \<Rightarrow> bool" where
  "id_pattern s =
     (5 \<le> length s \<and> drop (length s - 5) s = ''-midi''
      \<and> match_slug False (take (length s - 5) s))"

text \<open>
  The conditions of the rules that stand before the rule for \<open>beach\<close> and \<open>town\<close> in
  the chain of lines 35-100, over the lowercased name: one of them holds exactly when
  the chain stops before line 101.
\<close>

definition rules_before_beach :: "string \<Rightarrow> bool" where
  "rules_before_beach low =
     (contains ''twinkle'' low
      \<or> (contains ''beethoven'' low \<or> contains ''moonlight'' low)
      \<or> (contains ''debussy'' low \<or> contains ''clair'' low)
      \<or> contains ''metallica'' low
      \<or> (contains ''michael jackson'' low \<or> contains ''billie jean'' low)
      \<or> (contains ''nirvana'' low \<or> contains ''smells'' low)
      \<or> (contains ''owl city'' low \<or> contains ''fireflies'' low)
      \<or> contains ''pokemon'' low
      \<or> (contains ''smash'' low \<and> contains ''mouth'' low)
      \<or> contains ''final countdown'' low
      \<or> (contains ''toto'' low \<or> contains ''africa'' low)
      \<or> (contains ''wii'' low \<and> contains ''theme'' low)
      \<or> contains ''mii channel'' low
      \<or> contains ''super smash'' low
      \<or> contains ''mountain king'' low
      \<or> (contains ''titanic'' low \<or> contains ''heart'' low)
      \<or> contains ''backstreet'' low
      \<or> contains ''dooms-gate'' low
      \<or> contains ''spearsofjustice'' low
      \<or> contains ''test-drive'' low
      \<or> (contains ''desert'' low \<or> contains ''canyon'' low))"

section \<open>The classifier returns on every input\<close>

lemma split_once_contains:
  "contains sep s \<Longrightarrow> \<exists>a b. split_once sep s = Some (a, b)"
proof (induction s)
  case Nil
  then show ?case by (cases sep) auto
next
  case (Cons c cs)
  then show ?case by auto
qed

lemma split1_length: "contains sep s \<Longrightarrow> length (split1 sep s) = 2"
  using split_once_contains [of sep s] by (auto simp: split1_def)

lemma index_split1:
  "contains sep name \<Longrightarrow>
     \<exists>p0 p1. index (split1 sep name) 0 = Inr p0 \<and> index (split1 sep name) 1 = Inr p1"
  using split1_length [of sep name] by (simp add: index_def)

lemma split_artist_title_total: "\<exists>t a. split_artist_title name = Inr (t, a)"
proof (cases "contains '' - '' name")
  case True
  from index_split1 [OF True] obtain p0 p1 where
    "index (split1 '' - '' name) 0 = Inr p0" "index (split1 '' - '' name) 1 = Inr p1"
    by blast
  with True show ?thesis by (simp add: split_artist_title_def)
next
  case False
  show ?thesis
  proof (cases "contains '' -'' name")
    case True
    from index_split1 [OF True] obtain p0 p1 where
      "index (split1 '' -'' name) 0 = Inr p0" "index (split1 '' -'' name) 1 = Inr p1"
      by blast
    with True False show ?thesis by (simp add: split_artist_title_def)
  next
    case no: False
    with False show ?thesis by (simp add: split_artist_title_def)
  qed
qed

lemma extract_total:
  "\<exists>r. extract_song_info_from_filename f = Inr r
       \<and> difficulties r = [''easy''] \<and> overall_difficulty r = 5"
proof -
  obtain t a where ta: "split_artist_title (strip_extension f) = Inr (t, a)"
    using split_artist_title_total by blast
  obtain t' a' where sc: "special_cases (lower (strip_extension f)) t a = (t', a')"
    by (cases "special_cases (lower (strip_extension f)) t a") auto
  show ?thesis
    by (simp add: extract_song_info_from_filename_def Let_def ta sc)
qed

text \<open>
  C7. The classifier is total: on every string it returns a record, never an error,
  and the record's difficulties are \<open>["easy"]\<close> and its overall difficulty 5. It is
  deterministic by construction: it is a function of the file name alone, the source
  reading no other state.
\<close>

theorem classifier_total:
  "\<exists>r. extract_song_info_from_filename filename = Inr r
       \<and> difficulties r = [''easy''] \<and> overall_difficulty r = 5"
  by (rule extract_total)

section \<open>The examples of the specification\<close>

text \<open>
  C3. For \<open>Metallica - Master of Puppets.mid\<close> the classifier returns the title
  \<open>Master of Puppets\<close> and the artist \<open>Metallica\<close>, and the catalog builder derives the
  identifier \<open>metallica-master-of-puppets-midi\<close>.
\<close>

theorem metallica_example:
  "extract_song_info_from_filename ''Metallica - Master of Puppets.mid''
     = Inr \<lparr>title = ''Master of Puppets'', artist = ''Metallica'',
              difficulties = [''easy''], overall_difficulty = 5\<rparr>
   \<and> map_sum id s_id (make_song ''Metallica - Master of Puppets.mid'')
     = Inr ''metallica-master-of-puppets-midi''"
  by code_simp

text \<open>
  C1. For \<open>random_song.midi\<close> the specification expects the title \<open>random_song\<close> and
  the identifier \<open>random-song-midi\<close>. The code removes \<open>.mid\<close> first, which leaves the
  \<open>i\<close> of \<open>.midi\<close> behind: the title is \<open>random_songi\<close> and the identifier
  \<open>random-songi-midi\<close>.
\<close>

theorem random_song_midi_actual:
  "extract_song_info_from_filename ''random_song.midi''
     = Inr \<lparr>title = ''random_songi'', artist = ''Unknown'',
              difficulties = [''easy''], overall_difficulty = 5\<rparr>
   \<and> map_sum id s_id (make_song ''random_song.midi'') = Inr ''random-songi-midi''"
  by code_simp

section \<open>The sound font\<close>

text \<open>
  C8. For every file name the loop body returns a record, and its \<open>soundFont\<close> is the
  one fixed address, whether or not a keyword of line 161 occurs in the name: the
  assignment of line 162 stores the value the field already has.
\<close>

theorem soundFont_fixed:
  "\<exists>s. make_song filename = Inr s
       \<and> soundFont s
           = ''https://porter-smith.github.io/rhythm-master-files/soundfonts/gzdoom.sf2''"
proof -
  obtain r where r: "extract_song_info_from_filename filename = Inr r"
    using extract_total by blast
  show ?thesis
    by (simp add: make_song_def r Let_def)
qed

section \<open>The catalog and the runs that write nothing\<close>

text \<open>
  C5. Whenever a run writes the catalog, its \<open>midiSongs\<close> and \<open>allSongs\<close> are the same
  list.
\<close>

theorem midiSongs_eq_allSongs:
  "written (main e) = Some c \<Longrightarrow> midiSongs c = allSongs c"
  by (auto simp: main_def generate_midi_songs_json_def Let_def
           split: option.splits sum.splits if_splits)

theorem midiSongs_eq_allSongs_witness:
  "\<exists>c. written (main \<lparr>midi_dir = Some [''a.mid'', ''notes.txt'', ''b.midi''],
                        output_writable = True\<rparr>) = Some c
       \<and> length (midiSongs c) = 2 \<and> midiSongs c = allSongs c"
proof -
  have n: "map_option (\<lambda>c. length (midiSongs c))
             (written (main \<lparr>midi_dir = Some [''a.mid'', ''notes.txt'', ''b.midi''],
                               output_writable = True\<rparr>)) = Some 2"
    by code_simp
  then obtain c where c:
    "written (main \<lparr>midi_dir = Some [''a.mid'', ''notes.txt'', ''b.midi''],
                     output_writable = True\<rparr>) = Some c"
    "length (midiSongs c) = 2"
    by auto
  from midiSongs_eq_allSongs [OF c(1)] c show ?thesis by blast
qed

text \<open>
  C6. When the directory \<open>midi\<close> does not exist, the run prints the start line, the
  line that the directory was not found and the line that no songs were found, and
  writes nothing. When the directory exists and no entry ends in \<open>.mid\<close> or \<open>.midi\<close>,
  the run prints the start line and the line that no songs were found, and writes
  nothing. In both cases \<open>main\<close> returns.
\<close>

theorem no_songs_no_output:
  "(midi_dir e = None \<longrightarrow>
      main e = \<lparr>stdout = [Line ''Analyzing MIDI files...'',
                           Line ''MIDI directory midi not found!'',
                           Line ''No MIDI songs found!''],
                 written = None\<rparr>)
   \<and> (\<forall>names. midi_dir e = Some names
          \<and> glob ''.mid'' names = [] \<and> glob ''.midi'' names = [] \<longrightarrow>
      main e = \<lparr>stdout = [Line ''Analyzing MIDI files...'', Line ''No MIDI songs found!''],
                 written = None\<rparr>)"
  by (auto simp: main_def generate_midi_songs_json_def Let_def)

theorem no_songs_no_output_witness:
  "main \<lparr>midi_dir = None, output_writable = True\<rparr>
     = \<lparr>stdout = [Line ''Analyzing MIDI files...'',
                   Line ''MIDI directory midi not found!'',
                   Line ''No MIDI songs found!''],
         written = None\<rparr>
   \<and> glob ''.mid'' [''readme.txt''] = [] \<and> glob ''.midi'' [''readme.txt''] = []
   \<and> main \<lparr>midi_dir = Some [''readme.txt''], output_writable = True\<rparr>
     = \<lparr>stdout = [Line ''Analyzing MIDI files...'', Line ''No MIDI songs found!''],
         written = None\<rparr>"
proof -
  have g: "glob ''.mid'' [''readme.txt''] = []" "glob ''.midi'' [''readme.txt''] = []"
    by (simp_all add: glob_def ends_with_def)
  show ?thesis
    using no_songs_no_output [of "\<lparr>midi_dir = None, output_writable = True\<rparr>"]
      no_songs_no_output [of "\<lparr>midi_dir = Some [''readme.txt''], output_writable = True\<rparr>"]
      g
    by simp
qed

section \<open>Keywords survive the removal of the extension\<close>

lemma starts_with_append: "starts_with p s \<Longrightarrow> s = p @ drop (length p) s"
  by (induction p s rule: starts_with.induct) auto

lemma starts_with_contains: "starts_with w s \<Longrightarrow> contains w s"
  by (cases s) auto

lemma replace_Cons_match:
  "old \<noteq> [] \<Longrightarrow> starts_with old (c # cs)
     \<Longrightarrow> replace old new (c # cs) = new @ replace old new (drop (length old) (c # cs))"
  by simp

lemma replace_Cons_skip:
  "\<not> starts_with old (c # cs) \<Longrightarrow> replace old new (c # cs) = c # replace old new cs"
  by simp

text \<open>
  A prefix whose characters never come from the first character of the pattern is
  left alone by the replacement.
\<close>

lemma starts_with_map_replace:
  "\<forall>c. g c \<in> set v \<longrightarrow> c \<noteq> p0 \<Longrightarrow> starts_with v (map g s)
     \<Longrightarrow> starts_with v (map g (replace (p0 # r) new s))"
proof (induction v arbitrary: s)
  case Nil
  then show ?case by simp
next
  case (Cons v0 v)
  from Cons.prems(2) obtain c cs where s: "s = c # cs" and c: "g c = v0"
    and rest: "starts_with v (map g cs)"
    by (cases s) auto
  from Cons.prems(1) c have "c \<noteq> p0" by auto
  then have rep: "replace (p0 # r) new (c # cs) = c # replace (p0 # r) new cs"
    by simp
  have "starts_with v (map g (replace (p0 # r) new cs))"
    using Cons.IH [of cs] Cons.prems(1) rest by simp
  with s c rep show ?case by simp
qed

lemma contains_skip:
  "\<forall>c\<in>set x. c \<noteq> w0 \<Longrightarrow> contains (w0 # w) (x @ y) \<Longrightarrow> contains (w0 # w) y"
  by (induction x) auto

text \<open>
  An occurrence of a word, read through \<open>g\<close>, survives the deletion of a pattern when
  no character of the word comes from the pattern's first character and the word does
  not begin with the image of a character of the pattern: no deleted occurrence can
  overlap it.
\<close>

lemma contains_map_replace:
  assumes fresh: "\<forall>c. g c \<in> set (w0 # w) \<longrightarrow> c \<noteq> p0"
    and head: "\<forall>c\<in>set (p0 # r). g c \<noteq> w0"
  shows "contains (w0 # w) (map g s) \<Longrightarrow> contains (w0 # w) (map g (replace (p0 # r) [] s))"
proof (induction "p0 # r" "[] :: string" s rule: replace.induct)
  case 1
  then show ?case by simp
next
  case (2 c cs)
  show ?case
  proof (cases "starts_with (p0 # r) (c # cs)")
    case True
    let ?rest = "drop (length (p0 # r)) (c # cs)"
    have split: "c # cs = (p0 # r) @ ?rest"
      using starts_with_append [OF True] .
    have "contains (w0 # w) (map g (p0 # r) @ map g ?rest)"
      using "2.prems" split by (metis map_append)
    moreover have "\<forall>x\<in>set (map g (p0 # r)). x \<noteq> w0"
      using head by auto
    ultimately have "contains (w0 # w) (map g ?rest)"
      by (rule contains_skip [rotated])
    then have "contains (w0 # w) (map g (replace (p0 # r) [] ?rest))"
      using "2.hyps"(1) True by simp
    then show ?thesis
      by (simp only: replace_Cons_match [OF _ True] append_Nil list.distinct not_False_eq_True)
  next
    case False
    from "2.prems" have
      "starts_with (w0 # w) (map g (c # cs)) \<or> contains (w0 # w) (map g cs)"
      by simp
    then show ?thesis
    proof
      assume "starts_with (w0 # w) (map g (c # cs))"
      from starts_with_map_replace [OF fresh this]
      show ?thesis by (rule starts_with_contains)
    next
      assume "contains (w0 # w) (map g cs)"
      then have "contains (w0 # w) (map g (replace (p0 # r) [] cs))"
        using "2.hyps"(2) False by simp
      then show ?thesis
        by (simp only: replace_Cons_skip [OF False] list.map contains.simps simp_thms)
    qed
  qed
qed

lemma lower_char_ext:
  "lower_char CHR ''.'' = CHR ''.''" "lower_char CHR ''m'' = CHR ''m''"
  "lower_char CHR ''i'' = CHR ''i''" "lower_char CHR ''d'' = CHR ''d''"
  by (simp_all add: lower_char_def)

lemma contains_lower_strip_extension:
  assumes dot: "CHR ''.'' \<notin> set (w0 # w)"
    and hd: "w0 \<notin> set ''.midi''"
    and sub: "contains (w0 # w) (lower f)"
  shows "contains (w0 # w) (lower (strip_extension f))"
proof -
  have fresh: "\<forall>c. lower_char c \<in> set (w0 # w) \<longrightarrow> c \<noteq> CHR ''.''"
    using dot by (metis lower_char_ext(1))
  have h1: "\<forall>c\<in>set ''.mid''. lower_char c \<noteq> w0"
    using hd by (auto simp: lower_char_ext)
  have h2: "\<forall>c\<in>set ''.midi''. lower_char c \<noteq> w0"
    using hd by (auto simp: lower_char_ext)
  have "contains (w0 # w) (map lower_char (replace ''.mid'' [] f))"
    using contains_map_replace [OF fresh h1] sub by (simp add: lower_def)
  then have "contains (w0 # w) (map lower_char (replace ''.midi'' [] (replace ''.mid'' [] f)))"
    by (rule contains_map_replace [OF fresh h2])
  then show ?thesis by (simp add: lower_def strip_extension_def)
qed

lemma starts_with_prefix: "starts_with (p @ q) s \<Longrightarrow> starts_with p s"
  by (induction p s rule: starts_with.induct) auto

lemma contains_prefix: "contains (p @ q) s \<Longrightarrow> contains p s"
proof (induction s)
  case Nil
  then show ?case using starts_with_prefix [of p q "[]"] by simp
next
  case (Cons c cs)
  then show ?case using starts_with_prefix [of p q "c # cs"] by auto
qed

lemma contains_dash: "contains '' - '' s \<Longrightarrow> contains '' -'' s"
  using contains_prefix [of "'' -''" "'' ''" s] by simp

section \<open>The order of the keyword rules\<close>

text \<open>
  C4. For every file name whose lowercase form contains both \<open>twinkle\<close> and
  \<open>beethoven\<close>, the classifier returns the title \<open>Twinkle Twinkle Little Star\<close> and
  the artist \<open>Traditional\<close>: the rule for \<open>twinkle\<close> stands first and wins, the rule
  for \<open>beethoven\<close> is not applied.
\<close>

theorem twinkle_before_beethoven:
  assumes "contains ''twinkle'' (lower filename)"
    and "contains ''beethoven'' (lower filename)"
  shows "\<exists>r. extract_song_info_from_filename filename = Inr r
          \<and> title r = ''Twinkle Twinkle Little Star'' \<and> artist r = ''Traditional''"
proof -
  have tw: "contains ''twinkle'' (lower (strip_extension filename))"
    using assms(1) by (intro contains_lower_strip_extension) simp_all
  obtain t a where ta: "split_artist_title (strip_extension filename) = Inr (t, a)"
    using split_artist_title_total by blast
  have "special_cases (lower (strip_extension filename)) t a
          = (''Twinkle Twinkle Little Star'', ''Traditional'')"
    using tw by (simp add: special_cases_def)
  then show ?thesis
    by (simp add: extract_song_info_from_filename_def Let_def ta)
qed

theorem twinkle_before_beethoven_witness:
  "contains ''twinkle'' (lower ''Beethoven - Twinkle Variations.mid'')
   \<and> contains ''beethoven'' (lower ''Beethoven - Twinkle Variations.mid'')
   \<and> (\<exists>r. extract_song_info_from_filename ''Beethoven - Twinkle Variations.mid'' = Inr r
          \<and> title r = ''Twinkle Twinkle Little Star'' \<and> artist r = ''Traditional'')"
proof -
  have h: "contains ''twinkle'' (lower ''Beethoven - Twinkle Variations.mid'')"
    "contains ''beethoven'' (lower ''Beethoven - Twinkle Variations.mid'')"
    by code_simp+
  from twinkle_before_beethoven [OF h] h show ?thesis by blast
qed

text \<open>
  C9, as amended. For every file name whose name without the extension, lowercased,
  contains \<open>beach\<close> and \<open>town\<close>, neither \<open>violin\<close> nor \<open>flute\<close>, and meets no earlier
  rule, the classifier sets the artist to \<open>Traditional\<close> and leaves the title as it
  stood before the chain of rules: the text after the first \<open>' - '\<close> or \<open>' -'\<close>, stripped
  of white space, when the name contains one, and otherwise the name without its
  extension.
\<close>

theorem beach_town_keeps_title:
  assumes "contains ''beach'' (lower (strip_extension filename))"
    and "contains ''town'' (lower (strip_extension filename))"
    and "\<not> contains ''violin'' (lower (strip_extension filename))"
    and "\<not> contains ''flute'' (lower (strip_extension filename))"
    and "\<not> rules_before_beach (lower (strip_extension filename))"
  shows "\<exists>r t a. extract_song_info_from_filename filename = Inr r
          \<and> artist r = ''Traditional''
          \<and> split_artist_title (strip_extension filename) = Inr (t, a)
          \<and> title r = t
          \<and> (\<not> contains '' -'' (strip_extension filename) \<longrightarrow> t = strip_extension filename)"
proof -
  obtain t a where ta: "split_artist_title (strip_extension filename) = Inr (t, a)"
    using split_artist_title_total by blast
  have sc: "special_cases (lower (strip_extension filename)) t a = (t, ''Traditional'')"
    using assms by (simp add: special_cases_def rules_before_beach_def)
  have plain: "t = strip_extension filename"
    if "\<not> contains '' -'' (strip_extension filename)"
  proof -
    have "\<not> contains '' - '' (strip_extension filename)"
      using that contains_dash by blast
    with that ta show ?thesis by (simp add: split_artist_title_def)
  qed
  show ?thesis
    using ta sc plain by (simp add: extract_song_info_from_filename_def Let_def)
qed

theorem beach_town_keeps_title_witness:
  "contains ''beach'' (lower (strip_extension ''beach town.mid''))
   \<and> contains ''town'' (lower (strip_extension ''beach town.mid''))
   \<and> \<not> contains ''violin'' (lower (strip_extension ''beach town.mid''))
   \<and> \<not> contains ''flute'' (lower (strip_extension ''beach town.mid''))
   \<and> \<not> rules_before_beach (lower (strip_extension ''beach town.mid''))
   \<and> \<not> contains '' -'' (strip_extension ''beach town.mid'')
   \<and> (\<exists>r. extract_song_info_from_filename ''beach town.mid'' = Inr r
          \<and> artist r = ''Traditional'' \<and> title r = ''beach town'')"
proof -
  have h: "contains ''beach'' (lower (strip_extension ''beach town.mid''))"
    "contains ''town'' (lower (strip_extension ''beach town.mid''))"
    "\<not> contains ''violin'' (lower (strip_extension ''beach town.mid''))"
    "\<not> contains ''flute'' (lower (strip_extension ''beach town.mid''))"
    "\<not> rules_before_beach (lower (strip_extension ''beach town.mid''))"
    by code_simp+
  have d: "\<not> contains '' -'' (strip_extension ''beach town.mid'')"
    by code_simp
  have n: "strip_extension ''beach town.mid'' = ''beach town''"
    by code_simp
  from beach_town_keeps_title [OF h] obtain r t a where
    r: "extract_song_info_from_filename ''beach town.mid'' = Inr r"
      "artist r = ''Traditional''" "title r = t"
    and t: "\<not> contains '' -'' (strip_extension ''beach town.mid'')
              \<longrightarrow> t = strip_extension ''beach town.mid''"
    by blast
  from t d n have "t = ''beach town''" by simp
  with r have "\<exists>r. extract_song_info_from_filename ''beach town.mid'' = Inr r
          \<and> artist r = ''Traditional'' \<and> title r = ''beach town''"
    by blast
  with h d show ?thesis by blast
qed

text \<open>
  The property as the specification words it, with the title staying the unmodified
  file name, fails at
  \<open>Band - beach town.mid\<close>: the rule for \<open>beach\<close> and \<open>town\<close> is the first to apply,
  and the title is \<open>beach town\<close>, neither the file name nor the name without its
  extension.
\<close>

theorem beach_town_title_counterexample:
  "contains ''beach'' (lower ''Band - beach town.mid'')
   \<and> contains ''town'' (lower ''Band - beach town.mid'')
   \<and> \<not> contains ''violin'' (lower ''Band - beach town.mid'')
   \<and> \<not> contains ''flute'' (lower ''Band - beach town.mid'')
   \<and> \<not> rules_before_beach (lower ''Band - beach town.mid'')
   \<and> extract_song_info_from_filename ''Band - beach town.mid''
       = Inr \<lparr>title = ''beach town'', artist = ''Traditional'',
                difficulties = [''easy''], overall_difficulty = 5\<rparr>
   \<and> ''beach town'' \<noteq> ''Band - beach town.mid''
   \<and> ''beach town'' \<noteq> strip_extension ''Band - beach town.mid''"
  by code_simp

section \<open>The identifier\<close>

lemma hyphen_not_slug: "\<not> is_slug_char CHR ''-''"
  by code_simp

lemma dropWhile_hyphen_nonempty:
  assumes "c \<in> set y" and "is_slug_char c"
  shows "dropWhile (\<lambda>x. x = CHR ''-'') y \<noteq> []"
proof
  assume "dropWhile (\<lambda>x. x = CHR ''-'') y = []"
  then have "\<forall>x\<in>set y. x = CHR ''-''"
    by (simp only: dropWhile_eq_Nil_conv)
  from this assms(1) have eq: "c = CHR ''-''" by (rule bspec)
  have "is_slug_char CHR ''-''" using assms(2) unfolding eq .
  then show False by (rule notE [OF hyphen_not_slug])
qed

lemma rstrip_keep_hd:
  "\<not> p c \<Longrightarrow> rev (dropWhile p (rev (c # cs))) = c # rev (dropWhile p (rev cs))"
  by (simp add: dropWhile_append)

lemma rstrip_keep_mem:
  "x \<in> set cs \<Longrightarrow> \<not> p x
     \<Longrightarrow> rev (dropWhile p (rev (c # cs))) = c # rev (dropWhile p (rev cs))"
  by (auto simp: dropWhile_append)

lemma sub_hyphen_runs_hd:
  "z \<noteq> [] \<Longrightarrow> hd z \<noteq> CHR ''-'' \<Longrightarrow> sub_hyphen_runs z = hd z # sub_hyphen_runs (tl z)"
  by (cases z) auto

lemma match_slug_collapsed:
  "\<forall>c\<in>set z. is_slug_char c \<or> c = CHR ''-'' \<Longrightarrow> b \<or> (z \<noteq> [] \<and> hd z \<noteq> CHR ''-'')
     \<Longrightarrow> match_slug b (rev (dropWhile (\<lambda>x. x = CHR ''-'') (rev (sub_hyphen_runs z))))"
proof (induction z arbitrary: b rule: sub_hyphen_runs.induct)
  case 1
  then show ?case by simp
next
  case (2 c cs)
  let ?hy = "\<lambda>x. x = CHR ''-''"
  show ?case
  proof (cases "c = CHR ''-''")
    case True
    let ?z = "dropWhile ?hy cs"
    from True "2.prems"(2) have b: b by simp
    have alph: "\<forall>c\<in>set ?z. is_slug_char c \<or> c = CHR ''-''"
      using "2.prems"(1) by (auto dest: set_dropWhileD)
    show ?thesis
    proof (cases "?z = []")
      case z: True
      have "sub_hyphen_runs (c # cs) = [CHR ''-'']"
        by (simp only: True sub_hyphen_runs.simps z simp_thms if_True)
      then show ?thesis using b by simp
    next
      case z: False
      then have hd: "hd ?z \<noteq> CHR ''-''" using hd_dropWhile [of ?hy cs] by simp
      have ih: "match_slug False (rev (dropWhile ?hy (rev (sub_hyphen_runs ?z))))"
        using "2.IH"(1) [OF True alph, of False] z hd by simp
      have mem: "hd ?z \<in> set (sub_hyphen_runs ?z)"
        by (subst sub_hyphen_runs_hd [OF z hd]) simp
      have "rev (dropWhile ?hy (rev (CHR ''-'' # sub_hyphen_runs ?z)))
                   = CHR ''-'' # rev (dropWhile ?hy (rev (sub_hyphen_runs ?z)))"
        using mem hd by (rule rstrip_keep_mem)
      moreover have "sub_hyphen_runs (c # cs) = CHR ''-'' # sub_hyphen_runs ?z"
        by (simp only: True sub_hyphen_runs.simps simp_thms if_True)
      ultimately show ?thesis using ih b hyphen_not_slug by simp
    qed
  next
    case False
    with "2.prems"(1) have slug: "is_slug_char c" by simp
    have alph: "\<forall>c\<in>set cs. is_slug_char c \<or> c = CHR ''-''"
      using "2.prems"(1) by simp
    have ih: "match_slug True (rev (dropWhile ?hy (rev (sub_hyphen_runs cs))))"
      using "2.IH"(2) [OF False alph, of True] by simp
    have "rev (dropWhile ?hy (rev (c # sub_hyphen_runs cs)))
            = c # rev (dropWhile ?hy (rev (sub_hyphen_runs cs)))"
      using False by (rule rstrip_keep_hd)
    moreover have "sub_hyphen_runs (c # cs) = c # sub_hyphen_runs cs"
      using False by simp
    ultimately show ?thesis using ih slug by simp
  qed
qed

lemma dropWhile_sub_hyphen_runs:
  "dropWhile (\<lambda>x. x = CHR ''-'') (sub_hyphen_runs y)
     = sub_hyphen_runs (dropWhile (\<lambda>x. x = CHR ''-'') y)"
proof (cases y)
  case Nil
  then show ?thesis by simp
next
  case (Cons c cs)
  let ?hy = "\<lambda>x. x = CHR ''-''"
  show ?thesis
  proof (cases "c = CHR ''-''")
    case True
    let ?z = "dropWhile ?hy cs"
    have "dropWhile ?hy (sub_hyphen_runs ?z) = sub_hyphen_runs ?z"
    proof (cases "?z = []")
      case True
      then show ?thesis by (simp only: sub_hyphen_runs.simps dropWhile.simps)
    next
      case False
      then have "hd ?z \<noteq> CHR ''-''" using hd_dropWhile [of ?hy cs] by simp
      with False show ?thesis by (simp add: sub_hyphen_runs_hd)
    qed
    with True Cons show ?thesis by simp
  next
    case False
    with Cons show ?thesis by simp
  qed
qed

lemma song_id_matches:
  assumes "\<exists>c\<in>set (lower (strip_extension filename)). is_slug_char c"
  shows "match_slug False (song_id filename)"
proof -
  let ?hy = "\<lambda>x. x = CHR ''-''"
  let ?y = "sub_non_alnum (lower (strip_extension filename))"
  let ?z = "dropWhile ?hy ?y"
  have alph: "\<forall>c\<in>set ?y. is_slug_char c \<or> c = CHR ''-''"
    by (auto simp: sub_non_alnum_def)
  from assms obtain c where c0: "c \<in> set (lower (strip_extension filename))"
    and c1: "is_slug_char c"
    by blast
  have "c = (\<lambda>c. if is_slug_char c then c else CHR ''-'') c"
    using c1 by simp
  then have "c \<in> (\<lambda>c. if is_slug_char c then c else CHR ''-'')
                   ` set (lower (strip_extension filename))"
    using c0 by (rule image_eqI)
  then have c: "c \<in> set ?y" "is_slug_char c"
    using c1 by (simp_all only: sub_non_alnum_def set_map)
  have ne: "?z \<noteq> []" using c by (rule dropWhile_hyphen_nonempty)
  then have hd: "hd ?z \<noteq> CHR ''-''" using hd_dropWhile [of ?hy ?y] by simp
  have "\<forall>c\<in>set ?z. is_slug_char c \<or> c = CHR ''-''"
    using alph by (auto dest: set_dropWhileD)
  then have "match_slug False (rev (dropWhile ?hy (rev (sub_hyphen_runs ?z))))"
    using ne hd by (intro match_slug_collapsed) auto
  moreover have "song_id filename = rev (dropWhile ?hy (rev (sub_hyphen_runs ?z)))"
    by (simp add: song_id_def strip_chars_def strip_where_def Let_def
          dropWhile_sub_hyphen_runs)
  ultimately show ?thesis by simp
qed

lemma id_pattern_suffix: "id_pattern (s @ ''-midi'') = match_slug False s"
  by (simp add: id_pattern_def)

lemma sub_non_alnum_hyphens:
  assumes "\<not> (\<exists>c\<in>set x. is_slug_char c)"
  shows "\<forall>c\<in>set (sub_non_alnum x). c = CHR ''-''"
proof
  fix c
  assume "c \<in> set (sub_non_alnum x)"
  then obtain d where d: "d \<in> set x" and c: "c = (if is_slug_char d then d else CHR ''-'')"
    unfolding sub_non_alnum_def set_map by (rule imageE)
  from assms d have "\<not> is_slug_char d" by blast
  with c show "c = CHR ''-''" by (simp only: if_False)
qed

lemma strip_all_hyphens:
  assumes "\<forall>c\<in>set y. c = CHR ''-''"
  shows "strip_chars ''-'' (sub_hyphen_runs y) = []"
proof (cases y)
  case Nil
  then show ?thesis by (simp add: strip_chars_def strip_where_def)
next
  case (Cons c cs)
  from assms Cons have c: "c = CHR ''-''" by simp
  from assms Cons have "\<forall>x\<in>set cs. x = CHR ''-''" by simp
  then have "dropWhile (\<lambda>x. x = CHR ''-'') cs = []"
    by (simp only: dropWhile_eq_Nil_conv)
  then have "sub_hyphen_runs y = ''-''"
    by (simp only: Cons c sub_hyphen_runs.simps simp_thms if_True)
  then show ?thesis by (simp add: strip_chars_def strip_where_def)
qed

lemma song_id_empty:
  assumes "\<not> (\<exists>c\<in>set (lower (strip_extension filename)). is_slug_char c)"
  shows "song_id filename = []"
  using strip_all_hyphens [OF sub_non_alnum_hyphens [OF assms]]
  by (simp only: song_id_def Let_def)

lemma make_song_id: "\<exists>s. make_song filename = Inr s \<and> s_id s = song_id filename @ ''-midi''"
proof -
  obtain r where r: "extract_song_info_from_filename filename = Inr r"
    using extract_total by blast
  show ?thesis by (simp add: make_song_def r Let_def)
qed

text \<open>
  C2, as amended. For every file name the loop body returns a record. When the name
  without the extension, lowercased, has at least one character of \<open>[a-z0-9]\<close>, the
  identifier matches \<open>^[a-z0-9]+(-[a-z0-9]+)*-midi$\<close>; this covers the names ending in
  \<open>.mid\<close> or \<open>.midi\<close> and all others. When it has no such character, the slug is empty
  and the identifier is \<open>-midi\<close>, which does not match.
\<close>

theorem id_matches_pattern:
  "\<exists>s. make_song filename = Inr s
     \<and> ((\<exists>c\<in>set (lower (strip_extension filename)). is_slug_char c)
          \<longrightarrow> id_pattern (s_id s))
     \<and> (\<not> (\<exists>c\<in>set (lower (strip_extension filename)). is_slug_char c)
          \<longrightarrow> song_id filename = [] \<and> s_id s = ''-midi'' \<and> \<not> id_pattern (s_id s))"
proof -
  obtain s where s: "make_song filename = Inr s"
    and sid: "s_id s = song_id filename @ ''-midi''"
    using make_song_id by blast
  have a: "id_pattern (s_id s)"
    if "\<exists>c\<in>set (lower (strip_extension filename)). is_slug_char c"
    using song_id_matches [OF that] by (simp only: sid id_pattern_suffix)
  have np: "\<not> id_pattern ''-midi''" by code_simp
  have b: "song_id filename = [] \<and> s_id s = ''-midi'' \<and> \<not> id_pattern (s_id s)"
    if "\<not> (\<exists>c\<in>set (lower (strip_extension filename)). is_slug_char c)"
    using song_id_empty [OF that] np by (simp only: sid append_Nil simp_thms)
  from s a b show ?thesis by blast
qed

theorem id_matches_pattern_witness:
  "(\<exists>c\<in>set (lower (strip_extension ''Metallica - Nothing Else Matters.mid'')). is_slug_char c)
   \<and> (\<exists>s. make_song ''Metallica - Nothing Else Matters.mid'' = Inr s \<and> id_pattern (s_id s))
   \<and> \<not> (\<exists>c\<in>set (lower (strip_extension ''(!).mid'')). is_slug_char c)
   \<and> (\<exists>s. make_song ''(!).mid'' = Inr s \<and> song_id ''(!).mid'' = [] \<and> s_id s = ''-midi'')"
proof -
  have h: "\<exists>c\<in>set (lower (strip_extension ''Metallica - Nothing Else Matters.mid'')).
             is_slug_char c"
    by code_simp
  have n: "\<not> (\<exists>c\<in>set (lower (strip_extension ''(!).mid'')). is_slug_char c)"
    by code_simp
  from id_matches_pattern [of "''Metallica - Nothing Else Matters.mid''"] h
  have 1: "\<exists>s. make_song ''Metallica - Nothing Else Matters.mid'' = Inr s \<and> id_pattern (s_id s)"
    by blast
  from id_matches_pattern [of "''(!).mid''"] n
  have 2: "\<exists>s. make_song ''(!).mid'' = Inr s \<and> song_id ''(!).mid'' = [] \<and> s_id s = ''-midi''"
    by blast
  from h 1 n 2 show ?thesis by (intro conjI)
qed

text \<open>
  The property as the specification words it, for every name ending in \<open>.mid\<close> or
  \<open>.midi\<close>, fails at
  \<open>-.mid\<close>: nothing is left of the name once the hyphens are trimmed, the identifier
  is \<open>-midi\<close>, and the pattern asks for a character of \<open>[a-z0-9]\<close> first.
\<close>

theorem id_pattern_counterexample:
  "ends_with ''.mid'' ''-.mid''
   \<and> map_sum id s_id (make_song ''-.mid'') = Inr ''-midi''
   \<and> \<not> id_pattern ''-midi''"
  by code_simp

section \<open>What the removal of the extension leaves\<close>

lemma starts_with_mid_append:
  assumes "starts_with ''mid'' (cs @ CHR ''.'' # s)"
  shows "starts_with ''mid'' cs"
proof (cases cs)
  case Nil
  with assms show ?thesis by simp
next
  case c1: (Cons x1 l1)
  show ?thesis
  proof (cases l1)
    case Nil
    with c1 assms show ?thesis by simp
  next
    case c2: (Cons x2 l2)
    show ?thesis
    proof (cases l2)
      case Nil
      with c1 c2 assms show ?thesis by simp
    next
      case (Cons x3 l3)
      with c1 c2 assms show ?thesis by simp
    qed
  qed
qed

lemma starts_with_ext_append:
  assumes "starts_with ''.mid'' ((c # cs) @ CHR ''.'' # s)"
  shows "starts_with ''.mid'' (c # cs)"
proof -
  have both: "CHR ''.'' = c \<and> starts_with ''mid'' (cs @ CHR ''.'' # s)"
    using assms unfolding append_Cons starts_with.simps .
  from both have c: "CHR ''.'' = c" by (rule conjunct1)
  from both have rest: "starts_with ''mid'' (cs @ CHR ''.'' # s)" by (rule conjunct2)
  from rest have "starts_with ''mid'' cs" by (rule starts_with_mid_append)
  with c show ?thesis by simp
qed

lemma starts_with_appendI: "starts_with p s \<Longrightarrow> starts_with p (s @ t)"
  by (induction p s rule: starts_with.induct) auto

lemma replace_append_dot:
  "replace ''.mid'' [] (a @ CHR ''.'' # s)
     = replace ''.mid'' [] a @ replace ''.mid'' [] (CHR ''.'' # s)"
proof (induction "''.mid''" "[] :: string" a rule: replace.induct)
  case 1
  show ?case by (simp only: replace.simps append_Nil)
next
  case (2 c cs)
  show ?case
  proof (cases "starts_with ''.mid'' (c # cs)")
    case True
    let ?rest = "drop (length ''.mid'') (c # cs)"
    have whole: "starts_with ''.mid'' ((c # cs) @ CHR ''.'' # s)"
      using True by (rule starts_with_appendI)
    have len: "length ''.mid'' \<le> length (c # cs)"
      using starts_with_append [OF True] by (metis length_append le_add1)
    have "replace ''.mid'' [] ((c # cs) @ CHR ''.'' # s)
            = replace ''.mid'' [] (drop (length ''.mid'') ((c # cs) @ CHR ''.'' # s))"
      using whole by (simp only: append_Cons replace_Cons_match [OF _ whole [simplified append_Cons]]
          append_Nil list.distinct not_False_eq_True)
    also have "drop (length ''.mid'') ((c # cs) @ CHR ''.'' # s) = ?rest @ CHR ''.'' # s"
      using len by (simp only: drop_append) simp
    also have "replace ''.mid'' [] (?rest @ CHR ''.'' # s)
                 = replace ''.mid'' [] ?rest @ replace ''.mid'' [] (CHR ''.'' # s)"
      using "2.hyps"(1) True by simp
    also have "replace ''.mid'' [] ?rest = replace ''.mid'' [] (c # cs)"
      by (simp only: replace_Cons_match [OF _ True] append_Nil list.distinct not_False_eq_True)
    finally show ?thesis .
  next
    case False
    then have whole: "\<not> starts_with ''.mid'' (c # (cs @ CHR ''.'' # s))"
      using starts_with_ext_append [of c cs s] by (simp only: append_Cons) blast
    have "replace ''.mid'' [] (cs @ CHR ''.'' # s)
            = replace ''.mid'' [] cs @ replace ''.mid'' [] (CHR ''.'' # s)"
      using "2.hyps"(2) False by simp
    then show ?thesis
      by (simp only: append_Cons replace_Cons_skip [OF whole] replace_Cons_skip [OF False])
  qed
qed

lemma replace_absent: "\<not> contains old s \<Longrightarrow> replace old new s = s"
  by (induction s) auto

lemma replace_interior:
  "replace ''.mid'' [] (a @ ''.mid'' @ b) = replace ''.mid'' [] a @ replace ''.mid'' [] b"
proof -
  have "replace ''.mid'' [] (CHR ''.'' # ''mid'' @ b) = replace ''.mid'' [] b"
    by simp
  then show ?thesis
    using replace_append_dot [of a "''mid'' @ b"] by simp
qed

lemma replace_trailing_midi:
  "replace ''.mid'' [] (b @ ''.midi'') = replace ''.mid'' [] b @ ''i''"
  using replace_interior [of b "''i''"] by simp

text \<open>
  C10. The specification's reading of line 16 is that the removal of \<open>.midi\<close> never
  finds anything, so that every name ending in \<open>.midi\<close> keeps a trailing \<open>i\<close>
  (\<open>replace_trailing_midi\<close> above is the first replacement doing so). At
  \<open>a.m.midid.midi\<close> the code does otherwise: deleting the two occurrences of \<open>.mid\<close>
  leaves \<open>a.midi\<close>, the second replacement removes \<open>.midi\<close>, and the name is \<open>a\<close>, the
  title \<open>a\<close> and the identifier \<open>a-midi\<close>. The comment of line 15 announces the removal
  of the extension, which would leave \<open>a.m.midid\<close>.
\<close>

theorem spliced_midi_actual:
  "ends_with ''.midi'' ''a.m.midid.midi''
   \<and> replace ''.mid'' [] ''a.m.midid.midi'' = ''a.midi''
   \<and> contains ''.midi'' (replace ''.mid'' [] ''a.m.midid.midi'')
   \<and> strip_extension ''a.m.midid.midi'' = ''a''
   \<and> extract_song_info_from_filename ''a.m.midid.midi''
       = Inr \<lparr>title = ''a'', artist = ''Unknown'',
                difficulties = [''easy''], overall_difficulty = 5\<rparr>
   \<and> song_id ''a.m.midid.midi'' = ''a''
   \<and> map_sum id s_id (make_song ''a.m.midid.midi'') = Inr ''a-midi''"
  by code_simp

end
